theory Spec2Isabelle
  imports Main
begin

section \<open>The npm code lens provider of vscode-versionlens\<close>

text \<open>
  A shallow embedding of \<^verbatim>\<open>src/providers/npm/npmCodeLensProvider.js\<close>, the class
  \<^verbatim>\<open>NpmCodeLensProvider\<close>. The provider's two fields and the settings object are
  records; every call of a collaborator that lives outside the file (the JSON parser,
  the dependency parser, the npm API, the decoration renderers, the console) is an
  event appended to a trace; the collaborators' answers are the fields of an
  environment record. A property read on \<^verbatim>\<open>undefined\<close> raises a TypeError in
  JavaScript: such reads are sum-valued here, \<open>Inl\<close> being the thrown error.
  The collaborators return normally, but for the two whose failure the file handles:
  the promise of \<^verbatim>\<open>npmGetOutdated\<close> may reject, and \<^verbatim>\<open>generateCodeLenses\<close> may throw.
  A promise chain is followed in the order in which its callbacks run, for one call at
  a time.
\<close>

subsection \<open>Values and errors\<close>

text \<open>
  The JavaScript values that version fields hold: a string, or \<^verbatim>\<open>undefined\<close> /
  \<^verbatim>\<open>null\<close> for a field that is not there. \<open>truthy\<close> is JavaScript's ToBoolean
  on them, and HOL's equality on \<open>jsval\<close> is \<^verbatim>\<open>===\<close>.
\<close>

datatype jsval = JUndefined | JNull | JString string

fun truthy :: "jsval \<Rightarrow> bool" where
  "truthy JUndefined = False"
| "truthy JNull = False"
| "truthy (JString s) = (s \<noteq> [])"

text \<open>What a \<^verbatim>\<open>throw\<close> or a rejected promise carries.\<close>

datatype js_error = TypeError string | ExternalError string

subsection \<open>The code lens and its package\<close>

type_synonym range = "nat \<times> nat"

record tag =
  tag_version :: jsval

record package_meta =
  meta_type :: jsval
  meta_tag :: "tag option"

record package =
  pkg_name :: string
  pkg_version :: string
  pkg_meta :: "package_meta option"

text \<open>
  The predicates \<^verbatim>\<open>codeLens.packageNotFound()\<close> ... \<^verbatim>\<open>codeLens.isFixedVersion()\<close>
  and \<^verbatim>\<open>codeLens.getTaggedVersion()\<close> are methods of the lens class, which is not part
  of this file: the record holds what each returns for the lens (for a predicate, the
  truthiness of what it returns).
\<close>

record codeLens =
  package :: package
  replaceRange :: range
  packageNotFound :: bool
  packageNotSupported :: bool
  isTaggedVersion :: bool
  isInvalidVersion :: bool
  versionMatchNotFound :: bool
  matchesPrereleaseVersion :: bool
  matchesLatestVersion :: bool
  satisfiesLatestVersion :: bool
  isFixedVersion :: bool
  getTaggedVersion :: jsval

text \<open>\<^verbatim>\<open>codeLens.package.meta.type\<close>: a TypeError when there is no \<^verbatim>\<open>meta\<close>.\<close>

definition get_meta_type :: "codeLens \<Rightarrow> js_error + jsval" where
  "get_meta_type cl =
     (case pkg_meta (package cl) of
        None \<Rightarrow> Inl (TypeError ''Cannot read property type of undefined'')
      | Some m \<Rightarrow> Inr (meta_type m))"

text \<open>
  \<^verbatim>\<open>codeLens.package.meta.tag.version\<close>: a TypeError when there is no \<^verbatim>\<open>meta\<close> or
  no \<^verbatim>\<open>meta.tag\<close>.
\<close>

definition get_meta_tag_version :: "codeLens \<Rightarrow> js_error + jsval" where
  "get_meta_tag_version cl =
     (case pkg_meta (package cl) of
        None \<Rightarrow> Inl (TypeError ''Cannot read property tag of undefined'')
      | Some m \<Rightarrow>
          (case meta_tag m of
             None \<Rightarrow> Inl (TypeError ''Cannot read property version of undefined'')
           | Some t \<Rightarrow> Inr (tag_version t)))"

subsection \<open>Commands and decorations\<close>

text \<open>
  One constructor for each function of \<^verbatim>\<open>CommandFactory\<close> the provider calls, with the
  arguments of the call.
\<close>

datatype command =
    CreateGithubCommand codeLens
  | CreateLinkCommand codeLens
  | CreatePackageNotFoundCommand codeLens
  | CreatePackageNotSupportedCommand codeLens
  | CreateTaggedVersionCommand codeLens
  | CreateInvalidCommand codeLens
  | CreateVersionMatchNotFoundCommand codeLens
  | CreateMatchesPrereleaseVersionCommand codeLens
  | CreateMatchesLatestVersionCommand codeLens
  | CreateSatisfiesLatestVersionCommand codeLens
  | CreateFixedVersionCommand codeLens
  | CreateVersionCommand string jsval codeLens

text \<open>
  One constructor for each render function of \<^verbatim>\<open>editor/decorations\<close>, with the
  arguments of the call. \<^verbatim>\<open>renderInstalledDecoration\<close> is called with one version
  argument in one place and with two in another: it takes the list of them.
\<close>

datatype decoration =
    MissingDecoration range
  | InstalledDecoration range "jsval list"
  | OutdatedDecoration range jsval
  | NeedsUpdateDecoration range jsval
  | PrereleaseInstalledDecoration range jsval

subsection \<open>State, events and the environment\<close>

text \<open>An entry of the outdated cache, as \<^verbatim>\<open>npmGetOutdated\<close> delivers it.\<close>

record entry =
  entry_name :: string
  entry_current :: jsval

datatype logged = LogString string | LogError js_error

datatype event =
    JsonParse string
  | ExtractDependencyNodes
  | ParseDependencyNodes
  | NpmGetOutdated string
  | GenerateCodeLenses
  | NpmPackageDirExists string string
  | Render decoration
  | ConsoleLog "logged list"
  | ConsoleError "logged list"

text \<open>The fields of the provider object.\<close>

record provider =
  outdatedCache :: "entry list"
  documentPath :: string

text \<open>The flags of the \<^verbatim>\<open>appSettings\<close> object the provider reads and writes.\<close>

record appSettings =
  showVersionLenses :: bool
  showDependencyStatuses :: bool
  inProgress :: bool

text \<open>
  \<open>trace\<close> holds the calls made so far, in order. \<open>deferred\<close> holds the effects of
  the promise callbacks that \<^verbatim>\<open>generateDecoration\<close> leaves behind without waiting
  for them: they run after the synchronous code has returned.
\<close>

record world =
  self :: provider
  settings :: appSettings
  trace :: "event list"
  deferred :: "event list"

definition emit :: "event \<Rightarrow> world \<Rightarrow> world" where
  "emit e w = w\<lparr>trace := trace w @ [e]\<rparr>"

definition enqueue :: "event \<Rightarrow> world \<Rightarrow> world" where
  "enqueue e w = w\<lparr>deferred := deferred w @ [e]\<rparr>"

text \<open>A settled promise.\<close>

datatype 'a promise = Resolved 'a | Rejected js_error

record document =
  fsPath :: string
  getText :: string

record token =
  isCancellationRequested :: bool

text \<open>
  What \<^verbatim>\<open>jsonParser.parse\<close> returns: the root node, if any, and
  \<^verbatim>\<open>validationResult.errors\<close>.
\<close>

record 'node jsonDoc =
  doc_root :: "'node option"
  validation_errors :: "string list"

text \<open>
  The collaborators. \<open>jsonParse\<close> answers \<open>None\<close> for a falsy result.
  \<open>npmGetOutdated\<close> answers with the way its promise settles.
  \<open>generateCodeLenses\<close> sees the state it is called in, and may throw.
\<close>

record ('node, 'deps, 'pkgs, 'lenses) env =
  dirname :: "string \<Rightarrow> string"
  jsonParse :: "string \<Rightarrow> 'node jsonDoc option"
  npmDependencyProperties :: "string list"
  extractDependencyNodes :: "'node \<Rightarrow> string list \<Rightarrow> 'deps"
  parseDependencyNodes :: "'deps \<Rightarrow> 'pkgs"
  npmGetOutdated :: "string \<Rightarrow> entry list promise"
  generateCodeLenses :: "world \<Rightarrow> 'pkgs \<Rightarrow> document \<Rightarrow> js_error + 'lenses"
  npmPackageDirExists :: "string \<Rightarrow> string \<Rightarrow> bool"

subsection \<open>Promise chaining\<close>

text \<open>
  \<^verbatim>\<open>p.then(f)\<close>: \<open>f\<close> runs on the value of a resolved \<open>p\<close>, and what it
  throws rejects the new promise; a rejected \<open>p\<close> passes through.
\<close>

definition promise_then ::
  "'a promise \<Rightarrow> ('a \<Rightarrow> world \<Rightarrow> (js_error + 'b) \<times> world) \<Rightarrow> world \<Rightarrow> 'b promise \<times> world" where
  "promise_then p f w =
     (case p of
        Rejected err \<Rightarrow> (Rejected err, w)
      | Resolved v \<Rightarrow>
          (case f v w of
             (Inl err, w') \<Rightarrow> (Rejected err, w')
           | (Inr r, w') \<Rightarrow> (Resolved r, w')))"

text \<open>
  \<^verbatim>\<open>p.catch(h)\<close> for a handler that returns nothing: a resolved \<open>p\<close> passes through
  (\<open>Some\<close> its value); on a rejected \<open>p\<close> the handler runs and the new promise resolves
  with \<^verbatim>\<open>undefined\<close> (\<open>None\<close>).
\<close>

definition promise_catch ::
  "'a promise \<Rightarrow> (js_error \<Rightarrow> world \<Rightarrow> world) \<Rightarrow> world \<Rightarrow> 'a option promise \<times> world" where
  "promise_catch p h w =
     (case p of
        Resolved v \<Rightarrow> (Resolved (Some v), w)
      | Rejected err \<Rightarrow> (Resolved None, h err w))"

subsection \<open>updateOutdated\<close>

text \<open>
  \<^verbatim>\<open>
  updateOutdated() {
    return npmGetOutdated(this._documentPath)
      .then(results => this._outdatedCache = results)
      .catch(err => { console.log("npmGetOutdated", err) });
  }
  \<close>
\<close>

definition updateOutdated ::
  "('node, 'deps, 'pkgs, 'lenses) env \<Rightarrow> world \<Rightarrow> entry list option promise \<times> world" where
  "updateOutdated env w =
     (let w1 = emit (NpmGetOutdated (documentPath (self w))) w;
          (p, w2) =
            promise_then (npmGetOutdated env (documentPath (self w)))
              (\<lambda>results w'. (Inr results, w'\<lparr>self := (self w')\<lparr>outdatedCache := results\<rparr>\<rparr>))
              w1
      in promise_catch p
           (\<lambda>err. emit (ConsoleLog [LogString ''npmGetOutdated'', LogError err]))
           w2)"

subsection \<open>generateDecoration\<close>

text \<open>\<^verbatim>\<open>Array.prototype.findIndex\<close>; \<open>None\<close> stands for \<open>-1\<close>.\<close>

fun findIndex :: "('a \<Rightarrow> bool) \<Rightarrow> 'a list \<Rightarrow> nat option" where
  "findIndex P [] = None"
| "findIndex P (x # xs) = (if P x then Some 0 else map_option Suc (findIndex P xs))"

text \<open>
  The callback of \<^verbatim>\<open>Promise.resolve(this._outdatedCache).then(outdated => ...)\<close>,
  lines 148 to 204. On every path it makes at most one render call, as its last action:
  the result is that call, or the error thrown before it.
\<close>

definition decorationCallback :: "codeLens \<Rightarrow> entry list \<Rightarrow> js_error + decoration" where
  "decorationCallback cl outdated =
     (case findIndex (\<lambda>e. entry_name e = pkg_name (package cl)) outdated of
        None \<Rightarrow>
          (case get_meta_tag_version cl of
             Inl err \<Rightarrow> Inl err
           | Inr v \<Rightarrow> Inr (InstalledDecoration (replaceRange cl) [v]))
      | Some i \<Rightarrow>
          (let current = entry_current (outdated ! i) in
           case get_meta_tag_version cl of
             Inl err \<Rightarrow> Inl err
           | Inr entered \<Rightarrow>
               if \<not> truthy current then Inr (MissingDecoration (replaceRange cl))
               else if current = entered then
                 (if matchesLatestVersion cl
                    then Inr (InstalledDecoration (replaceRange cl) [current, entered])
                  else if matchesPrereleaseVersion cl
                    then Inr (PrereleaseInstalledDecoration (replaceRange cl) entered)
                  else Inr (OutdatedDecoration (replaceRange cl) current))
               else Inr (NeedsUpdateDecoration (replaceRange cl) current)))"

text \<open>
  \<^verbatim>\<open>generateDecoration(codeLens)\<close>. The promise chain is started and not awaited:
  the render call of its callback, or the \<^verbatim>\<open>console.error\<close> of its
  \<^verbatim>\<open>.catch(console.error)\<close>, is deferred. The cache is read when the chain is
  started. The read of \<^verbatim>\<open>window.activeTextEditor\<close> at line 137 is left out: its value
  is not used.
\<close>

definition generateDecoration ::
  "('node, 'deps, 'pkgs, 'lenses) env \<Rightarrow> codeLens \<Rightarrow> world \<Rightarrow> world" where
  "generateDecoration env cl w =
     (let documentPath' = documentPath (self w);
          currentPackageName = pkg_name (package cl);
          w1 = emit (NpmPackageDirExists documentPath' currentPackageName) w
      in if \<not> npmPackageDirExists env documentPath' currentPackageName
         then emit (Render (MissingDecoration (replaceRange cl))) w1
         else
           (case decorationCallback cl (outdatedCache (self w1)) of
              Inr d \<Rightarrow> enqueue (Render d) w1
            | Inl err \<Rightarrow> enqueue (ConsoleError [LogError err]) w1))"

subsection \<open>evaluateCodeLens\<close>

text \<open>
  Lines 71 to 77: the two checks on \<^verbatim>\<open>codeLens.package.meta.type\<close>, under the guard
  \<^verbatim>\<open>if (codeLens.package.meta)\<close>. \<open>Inr None\<close>: neither returned.
\<close>

definition metaTypeCommand :: "codeLens \<Rightarrow> js_error + command option" where
  "metaTypeCommand cl =
     (if pkg_meta (package cl) \<noteq> None then
        (case get_meta_type cl of
           Inl err \<Rightarrow> Inl err
         | Inr t \<Rightarrow>
             if t = JString ''github'' then Inr (Some (CreateGithubCommand cl))
             else
               (case get_meta_type cl of
                  Inl err \<Rightarrow> Inl err
                | Inr t' \<Rightarrow>
                    if t' = JString ''file'' then Inr (Some (CreateLinkCommand cl))
                    else Inr None))
      else Inr None)"

text \<open>Lines 95 to 124: the checks after the decoration, and the fallback.\<close>

definition versionCommand :: "codeLens \<Rightarrow> command" where
  "versionCommand cl =
     (if isInvalidVersion cl then CreateInvalidCommand cl
      else if versionMatchNotFound cl then CreateVersionMatchNotFoundCommand cl
      else if matchesPrereleaseVersion cl then CreateMatchesPrereleaseVersionCommand cl
      else if matchesLatestVersion cl then CreateMatchesLatestVersionCommand cl
      else if satisfiesLatestVersion cl then CreateSatisfiesLatestVersionCommand cl
      else if isFixedVersion cl then CreateFixedVersionCommand cl
      else
        (let tagVersion = getTaggedVersion cl
         in CreateVersionCommand (pkg_version (package cl)) tagVersion cl))"

definition evaluateCodeLens ::
  "('node, 'deps, 'pkgs, 'lenses) env \<Rightarrow> codeLens \<Rightarrow> world \<Rightarrow> (js_error + command) \<times> world" where
  "evaluateCodeLens env cl w =
     (case metaTypeCommand cl of
        Inl err \<Rightarrow> (Inl err, w)
      | Inr (Some c) \<Rightarrow> (Inr c, w)
      | Inr None \<Rightarrow>
          if packageNotFound cl then (Inr (CreatePackageNotFoundCommand cl), w)
          else if packageNotSupported cl then (Inr (CreatePackageNotSupportedCommand cl), w)
          else if isTaggedVersion cl then (Inr (CreateTaggedVersionCommand cl), w)
          else
            (let w1 = (if showDependencyStatuses (settings w)
                       then generateDecoration env cl w else w)
             in (Inr (versionCommand cl), w1)))"

subsection \<open>provideCodeLenses\<close>

text \<open>
  What \<^verbatim>\<open>provideCodeLenses\<close> returns: \<^verbatim>\<open>undefined\<close>, the empty array, or the promise
  of the chain, whose value is the lenses or \<^verbatim>\<open>undefined\<close> (\<open>None\<close>) after the
  last \<^verbatim>\<open>.catch\<close> has run.
\<close>

datatype 'lenses provide_result =
    ReturnUndefined
  | ReturnEmptyArray
  | ReturnPromise "'lenses option promise"

text \<open>
  Lines 59 to 67, from \<^verbatim>\<open>appSettings.inProgress = true\<close> on: the cache refresh, then
  the lens generation in the \<^verbatim>\<open>.then\<close> callback, then the \<^verbatim>\<open>.catch\<close> that logs.
\<close>

definition refreshAndGenerate ::
  "('node, 'deps, 'pkgs, 'lenses) env \<Rightarrow> 'pkgs \<Rightarrow> document \<Rightarrow> world \<Rightarrow>
     'lenses option promise \<times> world" where
  "refreshAndGenerate env packageCollection doc w =
     (let w1 = w\<lparr>settings := (settings w)\<lparr>inProgress := True\<rparr>\<rparr>;
          (p, w2) = updateOutdated env w1;
          (q, w3) =
            promise_then p
              (\<lambda>_ w'.
                 (let w'' = w'\<lparr>settings := (settings w')\<lparr>inProgress := False\<rparr>\<rparr>
                  in (generateCodeLenses env w'' packageCollection doc,
                      emit GenerateCodeLenses w'')))
              w2
      in promise_catch q (\<lambda>err. emit (ConsoleLog [LogError err])) w3)"

definition provideCodeLenses ::
  "('node, 'deps, 'pkgs, 'lenses) env \<Rightarrow> document \<Rightarrow> token \<Rightarrow> world \<Rightarrow>
     'lenses provide_result \<times> world" where
  "provideCodeLenses env doc tok w =
     (if \<not> showVersionLenses (settings w) then (ReturnUndefined, w)
      else
        (let w1 = w\<lparr>self := (self w)\<lparr>documentPath := dirname env (fsPath doc)\<rparr>\<rparr>;
             w2 = emit (JsonParse (getText doc)) w1
         in case jsonParse env (getText doc) of
              None \<Rightarrow> (ReturnEmptyArray, w2)
            | Some jsonDoc \<Rightarrow>
                (case doc_root jsonDoc of
                   None \<Rightarrow> (ReturnEmptyArray, w2)
                 | Some root' \<Rightarrow>
                     if validation_errors jsonDoc \<noteq> [] then (ReturnEmptyArray, w2)
                     else
                       (let dependencyNodes =
                              extractDependencyNodes env root' (npmDependencyProperties env);
                            w3 = emit ExtractDependencyNodes w2;
                            packageCollection = parseDependencyNodes env dependencyNodes;
                            w4 = emit ParseDependencyNodes w3;
                            (p, w5) = refreshAndGenerate env packageCollection doc w4
                        in (ReturnPromise p, w5)))))"

subsection \<open>Notions the properties are stated with\<close>

text \<open>
  A priority list as the specification words it: the candidates are tried in order and
  the first one whose condition holds wins; the fallback is taken when none holds.
\<close>

fun firstMatch :: "(bool \<times> 'a) list \<Rightarrow> 'a \<Rightarrow> 'a" where
  "firstMatch [] fallback = fallback"
| "firstMatch ((holds, c) # rest) fallback = (if holds then c else firstMatch rest fallback)"

text \<open>
  The nine predicates of a lens in the order the specification lists them, each with the
  command it stands for.
\<close>

definition commandPriority :: "codeLens \<Rightarrow> (bool \<times> command) list" where
  "commandPriority cl =
     [(packageNotFound cl, CreatePackageNotFoundCommand cl),
      (packageNotSupported cl, CreatePackageNotSupportedCommand cl),
      (isTaggedVersion cl, CreateTaggedVersionCommand cl),
      (isInvalidVersion cl, CreateInvalidCommand cl),
      (versionMatchNotFound cl, CreateVersionMatchNotFoundCommand cl),
      (matchesPrereleaseVersion cl, CreateMatchesPrereleaseVersionCommand cl),
      (matchesLatestVersion cl, CreateMatchesLatestVersionCommand cl),
      (satisfiesLatestVersion cl, CreateSatisfiesLatestVersionCommand cl),
      (isFixedVersion cl, CreateFixedVersionCommand cl)]"

text \<open>The lens has package metadata, and its type is the given string.\<close>

definition hasMetaType :: "codeLens \<Rightarrow> string \<Rightarrow> bool" where
  "hasMetaType cl s =
     (case pkg_meta (package cl) of None \<Rightarrow> False | Some m \<Rightarrow> meta_type m = JString s)"

text \<open>
  The root node of a document that passes line 45: the parse has a result, the result
  has a root, and there is no validation error.
\<close>

definition parsedRoot :: "('node, 'deps, 'pkgs, 'lenses) env \<Rightarrow> document \<Rightarrow> 'node option" where
  "parsedRoot env doc =
     (case jsonParse env (getText doc) of
        None \<Rightarrow> None
      | Some jsonDoc \<Rightarrow>
          (case doc_root jsonDoc of
             None \<Rightarrow> None
           | Some r \<Rightarrow> if validation_errors jsonDoc \<noteq> [] then None else Some r))"

text \<open>
  The effects a call has added: what \<open>w'\<close> holds beyond \<open>w\<close>, the calls made and the
  deferred ones.
\<close>

definition newEvents :: "world \<Rightarrow> world \<Rightarrow> event list" where
  "newEvents w w' =
     drop (length (trace w)) (trace w') @ drop (length (deferred w)) (deferred w')"



subsection \<open>Example inputs\<close>

definition lodashLens :: codeLens where
  "lodashLens =
     \<lparr>package =
        \<lparr>pkg_name = ''lodash'', pkg_version = ''^4.17.0'',
         pkg_meta = Some \<lparr>meta_type = JString ''npm'',
                           meta_tag = Some \<lparr>tag_version = JString ''4.17.21''\<rparr>\<rparr>\<rparr>,
      replaceRange = (12, 19),
      packageNotFound = False, packageNotSupported = False, isTaggedVersion = False,
      isInvalidVersion = False, versionMatchNotFound = False,
      matchesPrereleaseVersion = False, matchesLatestVersion = False,
      satisfiesLatestVersion = True, isFixedVersion = False,
      getTaggedVersion = JString ''4.17.21''\<rparr>"

text \<open>A lens whose package carries no metadata.\<close>

definition bareLens :: codeLens where
  "bareLens = lodashLens\<lparr>package := \<lparr>pkg_name = ''lodash'', pkg_version = ''^4.17.0'', pkg_meta = None\<rparr>\<rparr>"

definition exampleEnv :: "(string, string list, string list, string list) env" where
  "exampleEnv =
     \<lparr>dirname = (\<lambda>p. ''/proj''),
      jsonParse = (\<lambda>t. if t = [] then None else Some \<lparr>doc_root = Some t, validation_errors = []\<rparr>),
      npmDependencyProperties = [''dependencies'', ''devDependencies''],
      extractDependencyNodes = (\<lambda>r props. props),
      parseDependencyNodes = (\<lambda>deps. deps),
      npmGetOutdated = (\<lambda>p. Resolved [\<lparr>entry_name = ''lodash'', entry_current = JString ''4.17.21''\<rparr>]),
      generateCodeLenses = (\<lambda>w pkgs doc. Inr (map entry_name (outdatedCache (self w)) @ pkgs)),
      npmPackageDirExists = (\<lambda>p n. True)\<rparr>"

definition exampleWorld :: world where
  "exampleWorld =
     \<lparr>self = \<lparr>outdatedCache = [], documentPath = ''/old''\<rparr>,
      settings = \<lparr>showVersionLenses = True, showDependencyStatuses = True, inProgress = False\<rparr>,
      trace = [], deferred = []\<rparr>"

definition exampleDocument :: document where
  "exampleDocument = \<lparr>fsPath = ''/proj/package.json'', getText = ''{ }''\<rparr>"

text \<open>A cache entry of a package that is declared and not installed: it has no \<^verbatim>\<open>current\<close>.\<close>

definition notInstalledEntry :: entry where
  "notInstalledEntry = \<lparr>entry_name = ''lodash'', entry_current = JUndefined\<rparr>"



section \<open>Auxiliary lemmas\<close>

lemma metaTypeCommand_other:
  "\<not> hasMetaType cl ''github'' \<Longrightarrow> \<not> hasMetaType cl ''file'' \<Longrightarrow> metaTypeCommand cl = Inr None"
  by (auto simp: metaTypeCommand_def hasMetaType_def get_meta_type_def split: option.splits)



lemma metaTypeCommand_no_error: "metaTypeCommand cl \<noteq> Inl err"
  by (auto simp: metaTypeCommand_def get_meta_type_def split: option.splits)

lemma fst_evaluateCodeLens_other:
  assumes "metaTypeCommand cl = Inr None"
  shows "fst (evaluateCodeLens env cl w) =
     Inr (if packageNotFound cl then CreatePackageNotFoundCommand cl
          else if packageNotSupported cl then CreatePackageNotSupportedCommand cl
          else if isTaggedVersion cl then CreateTaggedVersionCommand cl
          else versionCommand cl)"
  using assms by (simp add: evaluateCodeLens_def Let_def)


lemma findIndex_Some_iff:
  "findIndex P xs = Some i \<longleftrightarrow> i < length xs \<and> P (xs ! i) \<and> (\<forall>j < i. \<not> P (xs ! j))"
proof (induction xs arbitrary: i)
  case Nil
  then show ?case by simp
next
  case (Cons x xs)
  show ?case
  proof (cases "P x")
    case True
    then show ?thesis
      by (cases i) auto
  next
    case False
    show ?thesis
    proof (cases i)
      case 0
      with False show ?thesis by simp
    next
      case (Suc k)
      have "(\<forall>j < Suc k. \<not> P ((x # xs) ! j)) \<longleftrightarrow> (\<forall>j < k. \<not> P (xs ! j))"
        using False by (auto simp: less_Suc_eq_0_disj)
      with False Suc Cons.IH [of k] show ?thesis
        by auto
    qed
  qed
qed

lemma updateOutdated_resolved:
  assumes "npmGetOutdated env (documentPath (self w)) = Resolved results"
  shows "updateOutdated env w =
           (Resolved (Some results),
            (emit (NpmGetOutdated (documentPath (self w))) w)
              \<lparr>self := (self w)\<lparr>outdatedCache := results\<rparr>\<rparr>)"
  using assms
  by (simp add: updateOutdated_def promise_then_def promise_catch_def emit_def Let_def)

lemma updateOutdated_rejected:
  assumes "npmGetOutdated env (documentPath (self w)) = Rejected err"
  shows "updateOutdated env w =
           (Resolved None,
            emit (ConsoleLog [LogString ''npmGetOutdated'', LogError err])
              (emit (NpmGetOutdated (documentPath (self w))) w))"
  using assms
  by (simp add: updateOutdated_def promise_then_def promise_catch_def emit_def Let_def)

lemma updateOutdated_resolves: "\<exists>v. fst (updateOutdated env w) = Resolved v"
  by (cases "npmGetOutdated env (documentPath (self w))")
     (simp_all add: updateOutdated_resolved updateOutdated_rejected)

lemma refreshAndGenerate_eq:
  assumes "updateOutdated env (w\<lparr>settings := (settings w)\<lparr>inProgress := True\<rparr>\<rparr>) = (Resolved v, wu)"
  shows "refreshAndGenerate env pkgs doc w =
     (let wg = wu\<lparr>settings := (settings wu)\<lparr>inProgress := False\<rparr>\<rparr>
      in case generateCodeLenses env wg pkgs doc of
           Inr ls \<Rightarrow> (Resolved (Some ls), emit GenerateCodeLenses wg)
         | Inl err \<Rightarrow> (Resolved None, emit (ConsoleLog [LogError err]) (emit GenerateCodeLenses wg)))"
  using assms
  by (simp add: refreshAndGenerate_def promise_then_def promise_catch_def Let_def split: sum.splits)

lemma provideCodeLenses_parsed:
  assumes "showVersionLenses (settings w)" and "parsedRoot env doc = Some r"
  shows "provideCodeLenses env doc tok w =
     (let (p, w') =
        refreshAndGenerate env
          (parseDependencyNodes env (extractDependencyNodes env r (npmDependencyProperties env)))
          doc
          (w\<lparr>self := (self w)\<lparr>documentPath := dirname env (fsPath doc)\<rparr>,
             trace := trace w @ [JsonParse (getText doc), ExtractDependencyNodes, ParseDependencyNodes]\<rparr>)
      in (ReturnPromise p, w'))"
  using assms
  by (auto simp: provideCodeLenses_def parsedRoot_def emit_def Let_def split: option.splits if_splits prod.splits)


lemma refreshAndGenerate_snd:
  "refreshAndGenerate env pkgs doc w =
     (let wu = snd (updateOutdated env (w\<lparr>settings := (settings w)\<lparr>inProgress := True\<rparr>\<rparr>));
          wg = wu\<lparr>settings := (settings wu)\<lparr>inProgress := False\<rparr>\<rparr>
      in case generateCodeLenses env wg pkgs doc of
           Inr ls \<Rightarrow> (Resolved (Some ls), emit GenerateCodeLenses wg)
         | Inl err \<Rightarrow> (Resolved None, emit (ConsoleLog [LogError err]) (emit GenerateCodeLenses wg)))"
proof -
  obtain v where "fst (updateOutdated env (w\<lparr>settings := (settings w)\<lparr>inProgress := True\<rparr>\<rparr>)) = Resolved v"
    using updateOutdated_resolves by blast
  then have "updateOutdated env (w\<lparr>settings := (settings w)\<lparr>inProgress := True\<rparr>\<rparr>) =
      (Resolved v, snd (updateOutdated env (w\<lparr>settings := (settings w)\<lparr>inProgress := True\<rparr>\<rparr>)))"
    by (simp add: prod_eq_iff)
  from refreshAndGenerate_eq [OF this] show ?thesis
    by (simp add: Let_def)
qed



lemma generateDecoration_rendered:
  assumes "npmPackageDirExists env (documentPath (self w)) (pkg_name (package cl))"
    and "decorationCallback cl (outdatedCache (self w)) = Inr d"
  shows "generateDecoration env cl w =
           w\<lparr>trace := trace w @
                [NpmPackageDirExists (documentPath (self w)) (pkg_name (package cl))],
             deferred := deferred w @ [Render d]\<rparr>"
  using assms by (simp add: generateDecoration_def emit_def enqueue_def Let_def)

lemma generateDecoration_failed:
  assumes "npmPackageDirExists env (documentPath (self w)) (pkg_name (package cl))"
    and "decorationCallback cl (outdatedCache (self w)) = Inl err"
  shows "generateDecoration env cl w =
           w\<lparr>trace := trace w @
                [NpmPackageDirExists (documentPath (self w)) (pkg_name (package cl))],
             deferred := deferred w @ [ConsoleError [LogError err]]\<rparr>"
  using assms by (simp add: generateDecoration_def emit_def enqueue_def Let_def)


lemma decorationCallback_cached:
  assumes "i < length outdated"
    and "entry_name (outdated ! i) = pkg_name (package cl)"
    and "\<forall>j < i. entry_name (outdated ! j) \<noteq> pkg_name (package cl)"
    and "get_meta_tag_version cl = Inr entered"
  shows "decorationCallback cl outdated =
     Inr (if \<not> truthy (entry_current (outdated ! i)) then MissingDecoration (replaceRange cl)
          else if entry_current (outdated ! i) = entered then
            (if matchesLatestVersion cl
               then InstalledDecoration (replaceRange cl) [entry_current (outdated ! i), entered]
             else if matchesPrereleaseVersion cl
               then PrereleaseInstalledDecoration (replaceRange cl) entered
             else OutdatedDecoration (replaceRange cl) (entry_current (outdated ! i)))
          else NeedsUpdateDecoration (replaceRange cl) (entry_current (outdated ! i)))"
proof -
  have "findIndex (\<lambda>e. entry_name e = pkg_name (package cl)) outdated = Some i"
    using assms(1-3) by (simp add: findIndex_Some_iff)
  then show ?thesis
    using assms(4) by (simp add: decorationCallback_def Let_def)
qed


lemma evaluateCodeLens_returns: "\<exists>c. fst (evaluateCodeLens env cl w) = Inr c"
proof (cases "metaTypeCommand cl")
  case (Inl err)
  then show ?thesis by (simp add: metaTypeCommand_no_error)
next
  case (Inr oc)
  then show ?thesis
    by (cases oc) (simp_all add: evaluateCodeLens_def Let_def)
qed




section \<open>The properties\<close>

text \<open>
  C1. A lens whose package metadata does not have the type github or file (it may have
  no metadata at all) gets the command of the first predicate that holds, in the order
  packageNotFound, packageNotSupported, isTaggedVersion, isInvalidVersion,
  versionMatchNotFound, matchesPrereleaseVersion, matchesLatestVersion,
  satisfiesLatestVersion, isFixedVersion; when none holds it gets the generic version
  command made from the package's declared version and the tagged version. In each case
  \<open>evaluateCodeLens\<close> returns a command and throws nothing.
\<close>

theorem evaluateCodeLens_priority_order:
  assumes "\<not> hasMetaType cl ''github''" and "\<not> hasMetaType cl ''file''"
  shows "fst (evaluateCodeLens env cl w) =
           Inr (firstMatch (commandPriority cl)
                  (CreateVersionCommand (pkg_version (package cl)) (getTaggedVersion cl) cl))"
proof -
  have "metaTypeCommand cl = Inr None"
    using assms by (rule metaTypeCommand_other)
  then show ?thesis
    by (simp add: fst_evaluateCodeLens_other commandPriority_def versionCommand_def)
qed

theorem evaluateCodeLens_priority_order_witness:
  "\<not> hasMetaType lodashLens ''github'' \<and> \<not> hasMetaType lodashLens ''file'' \<and>
   fst (evaluateCodeLens exampleEnv lodashLens exampleWorld) =
     Inr (CreateSatisfiesLatestVersionCommand lodashLens)"
  using evaluateCodeLens_priority_order [of lodashLens exampleEnv exampleWorld]
  by (simp add: hasMetaType_def lodashLens_def commandPriority_def)

text \<open>
  C2. When the setting showVersionLenses is false, \<open>provideCodeLenses\<close> returns
  \<^verbatim>\<open>undefined\<close> and changes nothing. When the setting is on and the JSON parse has no
  result, or its result has no root node, or it reports a validation error,
  \<open>provideCodeLenses\<close> returns the empty array; the only call made is the parse and
  the only field written is the document path: no dependency is extracted, the cache
  is not refreshed and no lens is generated.
\<close>

theorem provideCodeLenses_disabled_or_unparsed:
  "(\<not> showVersionLenses (settings w) \<longrightarrow>
      provideCodeLenses env doc tok w = (ReturnUndefined, w)) \<and>
   (showVersionLenses (settings w) \<and>
    (jsonParse env (getText doc) = None \<or>
     (\<exists>jsonDoc. jsonParse env (getText doc) = Some jsonDoc \<and>
        (doc_root jsonDoc = None \<or> validation_errors jsonDoc \<noteq> []))) \<longrightarrow>
      fst (provideCodeLenses env doc tok w) = ReturnEmptyArray \<and>
      snd (provideCodeLenses env doc tok w) =
        w\<lparr>self := (self w)\<lparr>documentPath := dirname env (fsPath doc)\<rparr>,
          trace := trace w @ [JsonParse (getText doc)]\<rparr> \<and>
      outdatedCache (self (snd (provideCodeLenses env doc tok w))) = outdatedCache (self w))"
proof (intro conjI impI)
  assume "\<not> showVersionLenses (settings w)"
  then show "provideCodeLenses env doc tok w = (ReturnUndefined, w)"
    by (simp add: provideCodeLenses_def)
next
  assume a: "showVersionLenses (settings w) \<and>
    (jsonParse env (getText doc) = None \<or>
     (\<exists>jsonDoc. jsonParse env (getText doc) = Some jsonDoc \<and>
        (doc_root jsonDoc = None \<or> validation_errors jsonDoc \<noteq> [])))"
  then have eq: "provideCodeLenses env doc tok w =
      (ReturnEmptyArray,
       w\<lparr>self := (self w)\<lparr>documentPath := dirname env (fsPath doc)\<rparr>,
         trace := trace w @ [JsonParse (getText doc)]\<rparr>)"
    by (auto simp: provideCodeLenses_def emit_def Let_def split: option.splits)
  show "fst (provideCodeLenses env doc tok w) = ReturnEmptyArray"
    by (simp add: eq)
  show "snd (provideCodeLenses env doc tok w) =
        w\<lparr>self := (self w)\<lparr>documentPath := dirname env (fsPath doc)\<rparr>,
          trace := trace w @ [JsonParse (getText doc)]\<rparr>"
    by (simp add: eq)
  show "outdatedCache (self (snd (provideCodeLenses env doc tok w))) = outdatedCache (self w)"
    by (simp add: eq)
qed

theorem provideCodeLenses_disabled_or_unparsed_witness:
  "provideCodeLenses exampleEnv exampleDocument \<lparr>isCancellationRequested = False\<rparr>
     (exampleWorld\<lparr>settings := (settings exampleWorld)\<lparr>showVersionLenses := False\<rparr>\<rparr>) =
     (ReturnUndefined, exampleWorld\<lparr>settings := (settings exampleWorld)\<lparr>showVersionLenses := False\<rparr>\<rparr>) \<and>
   showVersionLenses (settings exampleWorld) \<and>
   jsonParse exampleEnv (getText (exampleDocument\<lparr>getText := []\<rparr>)) = None \<and>
   provideCodeLenses exampleEnv (exampleDocument\<lparr>getText := []\<rparr>) \<lparr>isCancellationRequested = False\<rparr> exampleWorld =
     (ReturnEmptyArray,
      \<lparr>self = \<lparr>outdatedCache = [], documentPath = ''/proj''\<rparr>,
       settings = \<lparr>showVersionLenses = True, showDependencyStatuses = True, inProgress = False\<rparr>,
       trace = [JsonParse []], deferred = []\<rparr>)"
  using provideCodeLenses_disabled_or_unparsed
    [of "exampleWorld\<lparr>settings := (settings exampleWorld)\<lparr>showVersionLenses := False\<rparr>\<rparr>"
        exampleEnv exampleDocument "\<lparr>isCancellationRequested = False\<rparr>"]
    provideCodeLenses_disabled_or_unparsed
    [of exampleWorld exampleEnv "exampleDocument\<lparr>getText := []\<rparr>" "\<lparr>isCancellationRequested = False\<rparr>"]
  by (simp add: exampleWorld_def exampleEnv_def exampleDocument_def prod_eq_iff)

text \<open>
  C3, as amended. Let the install directory of the lens's package exist, let the tag
  version be readable from the package metadata, and let the cache hold an entry with
  the package's name; take the first such entry and its \<^verbatim>\<open>current\<close>. If
  \<^verbatim>\<open>current\<close> is falsy the missing decoration is rendered. Otherwise, if
  \<^verbatim>\<open>current\<close> equals the tag version: the installed decoration when
  matchesLatestVersion holds, else the prerelease installed decoration when
  matchesPrereleaseVersion holds, else the outdated decoration. Otherwise the needs
  update decoration is rendered, carrying \<^verbatim>\<open>current\<close>.
\<close>

theorem generateDecoration_cached_package:
  assumes "npmPackageDirExists env (documentPath (self w)) (pkg_name (package cl))"
    and "i < length (outdatedCache (self w))"
    and "entry_name (outdatedCache (self w) ! i) = pkg_name (package cl)"
    and "\<forall>j < i. entry_name (outdatedCache (self w) ! j) \<noteq> pkg_name (package cl)"
    and "get_meta_tag_version cl = Inr entered"
  shows "generateDecoration env cl w =
     w\<lparr>trace := trace w @
          [NpmPackageDirExists (documentPath (self w)) (pkg_name (package cl))],
       deferred := deferred w @
          [Render
            (if \<not> truthy (entry_current (outdatedCache (self w) ! i))
               then MissingDecoration (replaceRange cl)
             else if entry_current (outdatedCache (self w) ! i) = entered then
               (if matchesLatestVersion cl
                  then InstalledDecoration (replaceRange cl)
                         [entry_current (outdatedCache (self w) ! i), entered]
                else if matchesPrereleaseVersion cl
                  then PrereleaseInstalledDecoration (replaceRange cl) entered
                else OutdatedDecoration (replaceRange cl)
                       (entry_current (outdatedCache (self w) ! i)))
             else NeedsUpdateDecoration (replaceRange cl)
                    (entry_current (outdatedCache (self w) ! i)))]\<rparr>"
  using assms(1) decorationCallback_cached [OF assms(2-5)]
  by (rule generateDecoration_rendered)

theorem generateDecoration_cached_package_witness:
  "npmPackageDirExists exampleEnv ''/old'' ''lodash'' \<and>
   get_meta_tag_version lodashLens = Inr (JString ''4.17.21'') \<and>
   generateDecoration exampleEnv lodashLens
     (exampleWorld\<lparr>self := (self exampleWorld)
        \<lparr>outdatedCache := [\<lparr>entry_name = ''semver'', entry_current = JString ''7.0.0''\<rparr>,
                           \<lparr>entry_name = ''lodash'', entry_current = JString ''4.17.20''\<rparr>]\<rparr>\<rparr>) =
     exampleWorld\<lparr>self := (self exampleWorld)
        \<lparr>outdatedCache := [\<lparr>entry_name = ''semver'', entry_current = JString ''7.0.0''\<rparr>,
                           \<lparr>entry_name = ''lodash'', entry_current = JString ''4.17.20''\<rparr>]\<rparr>,
       trace := [NpmPackageDirExists ''/old'' ''lodash''],
       deferred := [Render (NeedsUpdateDecoration (12, 19) (JString ''4.17.20''))]\<rparr>"
  using generateDecoration_cached_package
    [of exampleEnv
        "exampleWorld\<lparr>self := (self exampleWorld)
          \<lparr>outdatedCache := [\<lparr>entry_name = ''semver'', entry_current = JString ''7.0.0''\<rparr>,
                             \<lparr>entry_name = ''lodash'', entry_current = JString ''4.17.20''\<rparr>]\<rparr>\<rparr>"
        lodashLens 1 "JString ''4.17.21''"]
  by (simp add: exampleEnv_def exampleWorld_def lodashLens_def get_meta_tag_version_def)

text \<open>
  The claim C3 as it was stated sends every \<^verbatim>\<open>current\<close> that differs from the tag
  version to the needs update decoration. An entry without \<^verbatim>\<open>current\<close> differs from
  the tag version, and line 165 renders the missing decoration for it.
\<close>

theorem generateDecoration_needs_update_counterexample:
  "npmPackageDirExists exampleEnv (documentPath (self exampleWorld)) (pkg_name (package lodashLens)) \<and>
   entry_name notInstalledEntry = pkg_name (package lodashLens) \<and>
   get_meta_tag_version lodashLens = Inr (JString ''4.17.21'') \<and>
   entry_current notInstalledEntry \<noteq> JString ''4.17.21'' \<and>
   generateDecoration exampleEnv lodashLens
     (exampleWorld\<lparr>self := (self exampleWorld)\<lparr>outdatedCache := [notInstalledEntry]\<rparr>\<rparr>) =
     exampleWorld\<lparr>self := (self exampleWorld)\<lparr>outdatedCache := [notInstalledEntry]\<rparr>,
       trace := [NpmPackageDirExists ''/old'' ''lodash''],
       deferred := [Render (MissingDecoration (replaceRange lodashLens))]\<rparr> \<and>
   Render (NeedsUpdateDecoration (replaceRange lodashLens) (entry_current notInstalledEntry))
     \<notin> set (newEvents
              (exampleWorld\<lparr>self := (self exampleWorld)\<lparr>outdatedCache := [notInstalledEntry]\<rparr>\<rparr>)
              (generateDecoration exampleEnv lodashLens
                 (exampleWorld\<lparr>self := (self exampleWorld)\<lparr>outdatedCache := [notInstalledEntry]\<rparr>\<rparr>)))"
  by (simp add: exampleEnv_def exampleWorld_def lodashLens_def notInstalledEntry_def
        get_meta_tag_version_def generateDecoration_def decorationCallback_def
        emit_def enqueue_def newEvents_def)




text \<open>
  C5. The promise of \<open>updateOutdated\<close> always resolves: when \<^verbatim>\<open>npmGetOutdated\<close>
  rejects, the error is logged with \<^verbatim>\<open>console.log\<close> and the promise resolves with
  \<^verbatim>\<open>undefined\<close>, so that a request that reached the refresh still generates its
  lenses and its promise resolves. An error thrown in the callback of
  \<open>generateDecoration\<close> is logged with \<^verbatim>\<open>console.error\<close> and goes no further:
  \<open>evaluateCodeLens\<close> still returns a command.
\<close>

theorem refresh_and_decoration_errors_swallowed:
  "(\<exists>v. fst (updateOutdated env w) = Resolved v) \<and>
   (npmGetOutdated env (documentPath (self w)) = Rejected err \<longrightarrow>
      updateOutdated env w =
        (Resolved None,
         w\<lparr>trace := trace w @
              [NpmGetOutdated (documentPath (self w)),
               ConsoleLog [LogString ''npmGetOutdated'', LogError err]]\<rparr>)) \<and>
   (showVersionLenses (settings w) \<and> parsedRoot env doc \<noteq> None \<longrightarrow>
      (\<exists>v. fst (provideCodeLenses env doc tok w) = ReturnPromise (Resolved v)) \<and>
      GenerateCodeLenses \<in> set (trace (snd (provideCodeLenses env doc tok w)))) \<and>
   (npmPackageDirExists env (documentPath (self w)) (pkg_name (package cl)) \<and>
    decorationCallback cl (outdatedCache (self w)) = Inl err' \<longrightarrow>
      generateDecoration env cl w =
        w\<lparr>trace := trace w @
             [NpmPackageDirExists (documentPath (self w)) (pkg_name (package cl))],
          deferred := deferred w @ [ConsoleError [LogError err']]\<rparr>) \<and>
   (\<exists>c. fst (evaluateCodeLens env cl w) = Inr c)"
proof (intro conjI impI)
  show "\<exists>v. fst (updateOutdated env w) = Resolved v"
    by (rule updateOutdated_resolves)
next
  assume "npmGetOutdated env (documentPath (self w)) = Rejected err"
  then show "updateOutdated env w =
        (Resolved None,
         w\<lparr>trace := trace w @
              [NpmGetOutdated (documentPath (self w)),
               ConsoleLog [LogString ''npmGetOutdated'', LogError err]]\<rparr>)"
    by (simp add: updateOutdated_rejected emit_def)
next
  assume a: "showVersionLenses (settings w) \<and> parsedRoot env doc \<noteq> None"
  then obtain r where r: "parsedRoot env doc = Some r"
    by blast
  from a have s: "showVersionLenses (settings w)" by simp
  show "\<exists>v. fst (provideCodeLenses env doc tok w) = ReturnPromise (Resolved v)"
    using s r
    by (simp add: provideCodeLenses_parsed refreshAndGenerate_snd Let_def split: sum.splits)
  show "GenerateCodeLenses \<in> set (trace (snd (provideCodeLenses env doc tok w)))"
    using s r
    by (simp add: provideCodeLenses_parsed refreshAndGenerate_snd Let_def emit_def split: sum.splits)
next
  assume "npmPackageDirExists env (documentPath (self w)) (pkg_name (package cl)) \<and>
    decorationCallback cl (outdatedCache (self w)) = Inl err'"
  then show "generateDecoration env cl w =
        w\<lparr>trace := trace w @
             [NpmPackageDirExists (documentPath (self w)) (pkg_name (package cl))],
          deferred := deferred w @ [ConsoleError [LogError err']]\<rparr>"
    by (simp add: generateDecoration_failed)
next
  show "\<exists>c. fst (evaluateCodeLens env cl w) = Inr c"
    by (rule evaluateCodeLens_returns)
qed

theorem refresh_and_decoration_errors_swallowed_witness:
  "npmGetOutdated (exampleEnv\<lparr>npmGetOutdated := \<lambda>p. Rejected (ExternalError ''npm outdated failed'')\<rparr>)
     (documentPath (self exampleWorld)) = Rejected (ExternalError ''npm outdated failed'') \<and>
   updateOutdated (exampleEnv\<lparr>npmGetOutdated := \<lambda>p. Rejected (ExternalError ''npm outdated failed'')\<rparr>)
     exampleWorld =
     (Resolved None,
      exampleWorld\<lparr>trace :=
         [NpmGetOutdated ''/old'',
          ConsoleLog [LogString ''npmGetOutdated'', LogError (ExternalError ''npm outdated failed'')]]\<rparr>) \<and>
   GenerateCodeLenses \<in> set (trace (snd (provideCodeLenses
      (exampleEnv\<lparr>npmGetOutdated := \<lambda>p. Rejected (ExternalError ''npm outdated failed'')\<rparr>)
      exampleDocument \<lparr>isCancellationRequested = False\<rparr> exampleWorld))) \<and>
   decorationCallback bareLens (outdatedCache (self exampleWorld)) =
     Inl (TypeError ''Cannot read property tag of undefined'') \<and>
   generateDecoration
      (exampleEnv\<lparr>npmGetOutdated := \<lambda>p. Rejected (ExternalError ''npm outdated failed'')\<rparr>)
      bareLens exampleWorld =
     exampleWorld\<lparr>trace := [NpmPackageDirExists ''/old'' ''lodash''],
        deferred := [ConsoleError [LogError (TypeError ''Cannot read property tag of undefined'')]]\<rparr>"
  using refresh_and_decoration_errors_swallowed
    [of "exampleEnv\<lparr>npmGetOutdated := \<lambda>p. Rejected (ExternalError ''npm outdated failed'')\<rparr>"
        exampleWorld "ExternalError ''npm outdated failed''" exampleDocument
        "\<lparr>isCancellationRequested = False\<rparr>" bareLens
        "TypeError ''Cannot read property tag of undefined''"]
  by (simp add: exampleEnv_def exampleWorld_def exampleDocument_def parsedRoot_def
        bareLens_def lodashLens_def decorationCallback_def get_meta_tag_version_def)









text \<open>
  C9. \<open>provideCodeLenses\<close> never reads its cancellation token: two calls that differ
  in the token only return the same result and leave the same state.
\<close>

theorem provideCodeLenses_ignores_token:
  "provideCodeLenses env doc tok1 w = provideCodeLenses env doc tok2 w"
  by (simp add: provideCodeLenses_def)

text \<open>
  C10. For a lens whose package has no metadata, the two checks of the metadata type
  are skipped and \<^verbatim>\<open>meta.type\<close> is not read (reading it would throw):
  \<open>evaluateCodeLens\<close> goes on to the packageNotFound check and returns the command
  of the remaining checks, never the github or the link command.
\<close>

theorem evaluateCodeLens_without_meta:
  assumes "pkg_meta (package cl) = None"
  shows "metaTypeCommand cl = Inr None \<and>
         fst (evaluateCodeLens env cl w) =
           Inr (if packageNotFound cl then CreatePackageNotFoundCommand cl
                else if packageNotSupported cl then CreatePackageNotSupportedCommand cl
                else if isTaggedVersion cl then CreateTaggedVersionCommand cl
                else versionCommand cl) \<and>
         fst (evaluateCodeLens env cl w) \<noteq> Inr (CreateGithubCommand cl) \<and>
         fst (evaluateCodeLens env cl w) \<noteq> Inr (CreateLinkCommand cl)"
proof -
  have m: "metaTypeCommand cl = Inr None"
    using assms by (simp add: metaTypeCommand_def)
  have e: "fst (evaluateCodeLens env cl w) =
           Inr (if packageNotFound cl then CreatePackageNotFoundCommand cl
                else if packageNotSupported cl then CreatePackageNotSupportedCommand cl
                else if isTaggedVersion cl then CreateTaggedVersionCommand cl
                else versionCommand cl)"
    using m by (rule fst_evaluateCodeLens_other)
  have "fst (evaluateCodeLens env cl w) \<noteq> Inr (CreateGithubCommand cl)"
       "fst (evaluateCodeLens env cl w) \<noteq> Inr (CreateLinkCommand cl)"
    by (simp_all add: e versionCommand_def Let_def)
  with m e show ?thesis by blast
qed

theorem evaluateCodeLens_without_meta_witness:
  "pkg_meta (package (bareLens\<lparr>packageNotFound := True\<rparr>)) = None \<and>
   get_meta_type (bareLens\<lparr>packageNotFound := True\<rparr>) =
     Inl (TypeError ''Cannot read property type of undefined'') \<and>
   fst (evaluateCodeLens exampleEnv (bareLens\<lparr>packageNotFound := True\<rparr>) exampleWorld) =
     Inr (CreatePackageNotFoundCommand (bareLens\<lparr>packageNotFound := True\<rparr>))"
  using evaluateCodeLens_without_meta
    [of "bareLens\<lparr>packageNotFound := True\<rparr>" exampleEnv exampleWorld]
  by (simp add: bareLens_def lodashLens_def get_meta_type_def)

end
